theory Spec2Isabelle
  imports Main "HOL-Library.Word"
begin

unbundle bit_operations_syntax

section \<open>The file-sharing chat backend (backend/index.js)\<close>

text \<open>
  The backend is one module: an in-memory message list, a resolver that optionally saves an
  uploaded file and then appends and publishes a message, a query that returns the list, a
  subscription on one topic, and a static file route for the saved uploads. The embedding
  passes the module's mutable state explicitly and takes every answer of the outside world
  (random octets, the outcome of a disk write, the settling of a promise) as an argument.
\<close>

subsection \<open>Values\<close>

type_synonym octet = "8 word"
type_synonym bytes = "octet list"

text \<open>An absolute POSIX path, as the list of its segments below the root.\<close>

type_synonym path = "string list"

text \<open>A JavaScript \<open>Error\<close>, identified by its message.\<close>

datatype error = Error string

text \<open>
  A promise as the \<open>await\<close> on it sees it: it is fulfilled with a value, rejected with an
  error, or never settles.
\<close>

datatype 'a promise = Fulfilled 'a | Rejected error | Unsettled

text \<open>
  The three fields that an upload and the stored file descriptor share
  (\<open>filename\<close>, \<open>mimetype\<close>, \<open>encoding\<close>); \<open>File\<close> is the GraphQL type \<open>File\<close> (line 47).
\<close>

record file_info =
  filename :: string
  mimetype :: string
  encoding :: string

record File = file_info +
  url :: string

text \<open>
  The GraphQL type \<open>Message\<close> (line 54). \<open>content\<close> and \<open>file\<close> are nullable: \<open>None\<close> is
  \<open>null\<close> (an omitted argument, \<open>undefined\<close>, is serialised as \<open>null\<close> too).
\<close>

record Message =
  id_msg :: string
  sender :: string
  content :: "string option"
  "file" :: "File option"

text \<open>
  What \<open>createReadStream()\<close> of an upload delivers: all the bytes and then the end of the
  stream, or some bytes and then an \<open>error\<close> event of the readable stream.
\<close>

datatype read_stream = Ends bytes | Breaks bytes error

text \<open>The object an upload promise of graphql-upload is fulfilled with (line 88).\<close>

record Upload = file_info +
  createReadStream :: read_stream

text \<open>
  The \<open>file\<close> argument as the resolver's test on line 86 sees it: \<open>null\<close> or \<open>undefined\<close>; a
  value whose \<open>then\<close> is not a function, with its truthiness; or a promise-like value, with the
  way it settles.
\<close>

datatype file_value = Nullish | NotThenable bool | Thenable "Upload promise"

fun truthy :: "file_value \<Rightarrow> bool" where
  "truthy Nullish = False"
| "truthy (NotThenable t) = t"
| "truthy (Thenable p) = True"

fun then_is_function :: "file_value \<Rightarrow> bool" where
  "then_is_function (Thenable p) = True"
| "then_is_function other = False"

text \<open>\<open>await file\<close> (line 87), which is reached only when the test on line 86 has succeeded.\<close>

fun awaited :: "file_value \<Rightarrow> Upload promise" where
  "awaited (Thenable p) = p"
| "awaited other = Unsettled"

subsection \<open>Identifiers: \<open>uuidv4()\<close>\<close>

text \<open>
  \<open>uuidv4\<close> is \<open>v4\<close> of the npm package uuid (line 11), which is not part of the repository.
  It draws 16 random octets, overwrites the version nibble of octet 6 and the two variant
  bits of octet 8, and prints the octets as lower-case hexadecimal in the groups 8-4-4-4-12.
  The random octets are the argument \<open>rng\<close>, octet \<open>i\<close> being \<open>rng i\<close>.
\<close>

definition hexdigit :: "nat \<Rightarrow> char" where
  "hexdigit n = ''0123456789abcdef'' ! (n mod 16)"

definition byteToHex :: "octet \<Rightarrow> string" where
  "byteToHex b = [hexdigit (unat b div 16), hexdigit (unat b mod 16)]"

fun hexes :: "(nat \<Rightarrow> octet) \<Rightarrow> nat list \<Rightarrow> string" where
  "hexes arr [] = []"
| "hexes arr (i # is) = byteToHex (arr i) @ hexes arr is"

definition stringify :: "(nat \<Rightarrow> octet) \<Rightarrow> string" where
  "stringify arr =
     hexes arr [0, 1, 2, 3] @ ''-'' @ hexes arr [4, 5] @ ''-'' @ hexes arr [6, 7] @ ''-'' @
     hexes arr [8, 9] @ ''-'' @ hexes arr [10, 11, 12, 13, 14, 15]"

definition uuidv4 :: "(nat \<Rightarrow> octet) \<Rightarrow> string" where
  "uuidv4 rng =
     (let rnds = rng(6 := (rng 6 AND 0x0f) OR 0x40);
          rnds = rnds(8 := (rnds 8 AND 0x3f) OR 0x80)
      in stringify rnds)"


subsection \<open>Paths and the module's constants\<close>

text \<open>
  \<open>path.join\<close> on POSIX: the pieces are joined with a slash and the result is normalised, which
  drops empty and \<open>.\<close> segments and lets \<open>..\<close> remove the segment before it (at the root it
  removes nothing).
\<close>

fun split_path :: "string \<Rightarrow> string list" where
  "split_path [] = [[]]"
| "split_path (c # cs) =
     (if c = CHR ''/'' then [] # split_path cs
      else (c # hd (split_path cs)) # tl (split_path cs))"

definition normalize_step :: "path \<Rightarrow> string \<Rightarrow> path" where
  "normalize_step stack seg =
     (if seg = [] \<or> seg = ''.'' then stack
      else if seg = ''..'' then butlast stack
      else stack @ [seg])"

definition normalize :: "string list \<Rightarrow> path" where
  "normalize segs = foldl normalize_step [] segs"

definition path_join :: "path \<Rightarrow> string \<Rightarrow> path" where
  "path_join dir rel = normalize (dir @ split_path rel)"

definition dirname :: "path \<Rightarrow> path" where
  "dirname p = butlast p"

text \<open>
  What the process is started with: the path of the module file (\<open>__filename\<close>, line 14) and
  the working directory of the process (\<open>process.cwd()\<close>, which the module never reads).
\<close>

record env =
  module_filename :: path
  cwd :: path

definition uploadsDir :: "env \<Rightarrow> path" where
  "uploadsDir e = path_join (dirname (module_filename e)) ''uploads''"

definition PORT :: nat where
  "PORT = 4000"

definition MESSAGE_ADDED :: string where
  "MESSAGE_ADDED = ''MESSAGE_ADDED''"

subsection \<open>The state of the server\<close>

text \<open>The payload published on line 118: \<open>{ messageAdded: message }\<close>.\<close>

datatype payload = Payload (messageAdded: Message)

text \<open>
  One open subscription of the \<open>PubSub\<close>: the triggers its iterator listens to and the payloads
  delivered to it so far, oldest first.
\<close>

record subscription =
  triggers :: "string list"
  inbox :: "payload list"

text \<open>
  \<open>messages\<close> is the array of line 41, \<open>pubsub\<close> the open subscriptions of the \<open>PubSub\<close> of
  line 37 in the order they were opened, \<open>disk\<close> the regular files of the file system.
  \<open>opened\<close> is a ghost field: the paths of the \<open>fs.createWriteStream\<close> calls made so far.
\<close>

record state =
  messages :: "Message list"
  pubsub :: "subscription list"
  disk :: "path \<rightharpoonup> bytes"
  opened :: "path list"

text \<open>
  The state when the module has been loaded, over the files \<open>d\<close> that are on the disk then.
  (Lines 19 to 21 create the upload directory if it is missing; directories are not part of
  \<open>disk\<close>.)
\<close>

definition init :: "(path \<rightharpoonup> bytes) \<Rightarrow> state" where
  "init d = \<lparr>messages = [], pubsub = [], disk = d, opened = []\<rparr>"

subsection \<open>PubSub\<close>

text \<open>
  \<open>publish\<close> hands the payload to every subscription open at that moment that listens to the
  trigger; \<open>asyncIterator\<close> opens a new subscription, which starts with nothing delivered.
\<close>

definition deliver :: "string \<Rightarrow> payload \<Rightarrow> subscription \<Rightarrow> subscription" where
  "deliver trigger p sub =
     (if trigger \<in> set (triggers sub) then sub\<lparr>inbox := inbox sub @ [p]\<rparr> else sub)"

definition publish :: "string \<Rightarrow> payload \<Rightarrow> state \<Rightarrow> state" where
  "publish trigger p s = s\<lparr>pubsub := map (deliver trigger p) (pubsub s)\<rparr>"

definition asyncIterator :: "string list \<Rightarrow> state \<Rightarrow> nat \<times> state" where
  "asyncIterator ts s =
     (length (pubsub s), s\<lparr>pubsub := pubsub s @ [\<lparr>triggers = ts, inbox = []\<rparr>]\<rparr>)"

subsection \<open>Resolvers\<close>

text \<open>\<open>Query.messages\<close> (line 79).\<close>

definition Query_messages :: "state \<Rightarrow> Message list" where
  "Query_messages s = messages s"

text \<open>
  The promise of lines 93 to 98. The write stream is opened on \<open>filepath\<close> and the upload is
  piped into it. \<open>fs_event\<close> is the answer of the file system: it takes every byte (then the
  write stream emits \<open>finish\<close> once the upload has ended), or the write stream emits \<open>error\<close>,
  leaving at \<open>filepath\<close> what it had flushed (\<open>None\<close>: the file was never opened). An upload
  that breaks ends neither stream: \<open>pipe\<close> does not forward the error, so neither \<open>finish\<close>
  nor \<open>error\<close> is emitted and the promise never settles.
\<close>

datatype fs_event = Accepts | WriteError error "bytes option"

definition save_to_disk :: "state \<Rightarrow> path \<Rightarrow> read_stream \<Rightarrow> fs_event \<Rightarrow> unit promise \<times> state" where
  "save_to_disk s filepath stream ev =
     (let s1 = s\<lparr>opened := opened s @ [filepath]\<rparr> in
      case ev of
        WriteError e left \<Rightarrow>
          (Rejected e,
           case left of None \<Rightarrow> s1 | Some b \<Rightarrow> s1\<lparr>disk := (disk s1)(filepath \<mapsto> b)\<rparr>)
      | Accepts \<Rightarrow>
          (case stream of
             Ends data \<Rightarrow> (Fulfilled (), s1\<lparr>disk := (disk s1)(filepath \<mapsto> data)\<rparr>)
           | Breaks data e \<Rightarrow> (Unsettled, s1\<lparr>disk := (disk s1)(filepath \<mapsto> data)\<rparr>)))"

text \<open>Lines 108 to 120: build the message, push it, publish it, return it.\<close>

definition store_and_publish ::
  "(nat \<Rightarrow> octet) \<Rightarrow> state \<Rightarrow> string \<Rightarrow> string option \<Rightarrow> File option \<Rightarrow> Message promise \<times> state" where
  "store_and_publish rng s sender_arg content_arg fileData =
     (let message = \<lparr>id_msg = uuidv4 rng, sender = sender_arg, content = content_arg, file = fileData\<rparr>;
          s1 = s\<lparr>messages := messages s @ [message]\<rparr>;
          s2 = publish MESSAGE_ADDED (Payload message) s1
      in (Fulfilled message, s2))"

text \<open>
  \<open>Mutation.postMessage\<close> (lines 83 to 121). \<open>rng\<close> are the random octets \<open>uuidv4\<close> draws in
  this call and \<open>ev\<close> is the file system's answer to the write, if the call makes one.
\<close>

definition postMessage ::
  "env \<Rightarrow> (nat \<Rightarrow> octet) \<Rightarrow> fs_event \<Rightarrow> state \<Rightarrow> string \<Rightarrow> string option \<Rightarrow> file_value
     \<Rightarrow> Message promise \<times> state" where
  "postMessage e rng ev s sender_arg content_arg file_arg =
     (if truthy file_arg \<and> then_is_function file_arg then
        (case awaited file_arg of
           Rejected err \<Rightarrow> (Rejected err, s)
         | Unsettled \<Rightarrow> (Unsettled, s)
         | Fulfilled upload \<Rightarrow>
             (let filepath = path_join (uploadsDir e) (filename upload) in
              case save_to_disk s filepath (createReadStream upload) ev of
                (Rejected err, s1) \<Rightarrow> (Rejected err, s1)
              | (Unsettled, s1) \<Rightarrow> (Unsettled, s1)
              | (Fulfilled u, s1) \<Rightarrow>
                  store_and_publish rng s1 sender_arg content_arg
                    (Some \<lparr>filename = filename upload, mimetype = mimetype upload,
                           encoding = encoding upload,
                           url = ''http://localhost:4000/uploads/'' @ filename upload\<rparr>)))
      else store_and_publish rng s sender_arg content_arg None)"

text \<open>\<open>Subscription.messageAdded.subscribe\<close> (line 126).\<close>

definition messageAdded_subscribe :: "state \<Rightarrow> nat \<times> state" where
  "messageAdded_subscribe s = asyncIterator [MESSAGE_ADDED] s"

subsection \<open>The GraphQL layer around the resolver\<close>

text \<open>
  What the caller of the mutation gets from the GraphQL execution engine (a library): when
  the resolver's promise is fulfilled, the record as \<open>data.postMessage\<close>; when it is rejected,
  \<open>null\<close> there and the error in \<open>errors\<close>; while it does not settle, no response.
\<close>

record response =
  data :: "Message option"
  errors :: "error list"

fun execute_postMessage :: "Message promise \<Rightarrow> response option" where
  "execute_postMessage (Fulfilled m) = Some \<lparr>data = Some m, errors = []\<rparr>"
| "execute_postMessage (Rejected err) = Some \<lparr>data = None, errors = [err]\<rparr>"
| "execute_postMessage Unsettled = None"

subsection \<open>Sequences of operations\<close>

text \<open>
  The operations a client can apply, each with the outside world's answers for it. The
  callbacks of the event loop run one at a time and the resolver changes \<open>messages\<close> and the
  \<open>PubSub\<close> only in its last, synchronous part (lines 108 to 120), so a history of the server
  is a sequence of such operations in the order of those parts.
\<close>

datatype operation =
  Post "nat \<Rightarrow> octet" fs_event string "string option" file_value
| Subscribe
| Query

fun step :: "env \<Rightarrow> state \<Rightarrow> operation \<Rightarrow> state" where
  "step e s (Post rng ev sender_arg content_arg file_arg) =
     snd (postMessage e rng ev s sender_arg content_arg file_arg)"
| "step e s Subscribe = snd (messageAdded_subscribe s)"
| "step e s Query = s"

fun returned_by :: "env \<Rightarrow> state \<Rightarrow> operation \<Rightarrow> Message list" where
  "returned_by e s (Post rng ev sender_arg content_arg file_arg) =
     (case fst (postMessage e rng ev s sender_arg content_arg file_arg) of
        Fulfilled m \<Rightarrow> [m]
      | Rejected err \<Rightarrow> []
      | Unsettled \<Rightarrow> [])"
| "returned_by e s Subscribe = []"
| "returned_by e s Query = []"

fun run :: "env \<Rightarrow> state \<Rightarrow> operation list \<Rightarrow> state" where
  "run e s [] = s"
| "run e s (x # xs) = run e (step e s x) xs"

text \<open>The records the mutations of a history returned, in the order they were applied.\<close>

fun returned :: "env \<Rightarrow> state \<Rightarrow> operation list \<Rightarrow> Message list" where
  "returned e s [] = []"
| "returned e s (x # xs) = returned_by e s x @ returned e (step e s x) xs"

subsection \<open>The data-model invariant\<close>

text \<open>A message has content and/or a file.\<close>

definition has_content_or_file :: "Message \<Rightarrow> bool" where
  "has_content_or_file m = (content m \<noteq> None \<or> file m \<noteq> None)"

text \<open>An operation that, if it is a mutation, passes a content or a promise-like file.\<close>

fun passes_content_or_upload :: "operation \<Rightarrow> bool" where
  "passes_content_or_upload (Post rng ev sender_arg content_arg file_arg) =
     (content_arg \<noteq> None \<or> then_is_function file_arg)"
| "passes_content_or_upload Subscribe = True"
| "passes_content_or_upload Query = True"

subsection \<open>Listening and serving the uploads\<close>

text \<open>\<open>httpServer.listen(PORT, ...)\<close> (line 177): the port the server listens on.\<close>

definition httpServer_listen :: nat where
  "httpServer_listen = PORT"











subsection \<open>Example inputs\<close>

text \<open>A server whose module file is \<open>/srv/app/index.js\<close>, started from \<open>/home/user\<close>.\<close>

abbreviation (input) env0 :: env where
  "env0 \<equiv> \<lparr>module_filename = [''srv'', ''app'', ''index.js''], cwd = [''home'', ''user'']\<rparr>"

text \<open>An upload of the two bytes \<open>hi\<close> named \<open>a.txt\<close>, and the descriptor stored for it.\<close>

abbreviation (input) a_txt :: Upload where
  "a_txt \<equiv> \<lparr>filename = ''a.txt'', mimetype = ''text/plain'', encoding = ''7bit'',
             createReadStream = Ends [104, 105]\<rparr>"

abbreviation (input) a_txt_File :: File where
  "a_txt_File \<equiv> \<lparr>filename = ''a.txt'', mimetype = ''text/plain'', encoding = ''7bit'',
             url = ''http://localhost:4000/uploads/a.txt''\<rparr>"







section \<open>Properties\<close>

subsection \<open>Identifiers\<close>

lemma length_byteToHex: "length (byteToHex b) = 2"
  by (simp add: byteToHex_def)

lemma length_hexes: "length (hexes arr is) = 2 * length is"
  by (induction "is") (simp_all add: length_byteToHex)

lemma length_uuidv4: "length (uuidv4 rng) = 36"
  by (simp add: uuidv4_def stringify_def length_hexes Let_def del: hexes.simps)

lemma uuidv4_of_nat: "uuidv4 of_nat = ''00010203-0405-4607-8809-0a0b0c0d0e0f''"
  by (simp add: uuidv4_def stringify_def byteToHex_def hexdigit_def)















subsection \<open>What one call of the resolver does to the state\<close>

lemma messages_publish: "messages (publish t p s) = messages s"
  by (simp add: publish_def)

lemma disk_publish: "disk (publish t p s) = disk s"
  by (simp add: publish_def)

lemma opened_publish: "opened (publish t p s) = opened s"
  by (simp add: publish_def)

lemma store_and_publish_result:
  "store_and_publish rng s sender_arg content_arg fd =
     (Fulfilled \<lparr>id_msg = uuidv4 rng, sender = sender_arg, content = content_arg, file = fd\<rparr>,
      publish MESSAGE_ADDED
        (Payload \<lparr>id_msg = uuidv4 rng, sender = sender_arg, content = content_arg, file = fd\<rparr>)
        (s\<lparr>messages := messages s @
            [\<lparr>id_msg = uuidv4 rng, sender = sender_arg, content = content_arg, file = fd\<rparr>]\<rparr>))"
  by (simp add: store_and_publish_def Let_def)

lemma save_to_disk_keeps:
  "messages (snd (save_to_disk s filepath stream ev)) = messages s"
  "pubsub (snd (save_to_disk s filepath stream ev)) = pubsub s"
  "opened (snd (save_to_disk s filepath stream ev)) = opened s @ [filepath]"
  by (simp_all add: save_to_disk_def Let_def split: fs_event.splits read_stream.splits option.splits)

text \<open>
  A call that is fulfilled has appended exactly the returned record; a call that is rejected
  or never settles has left the list as it was.
\<close>

lemma postMessage_no_file:
  "postMessage e rng ev s sender_arg content_arg Nullish =
     store_and_publish rng s sender_arg content_arg None"
  by (simp add: postMessage_def)

lemma postMessage_NotThenable:
  "postMessage e rng ev s sender_arg content_arg (NotThenable t) =
     store_and_publish rng s sender_arg content_arg None"
  by (simp add: postMessage_def)

lemma postMessage_not_fulfilled:
  "postMessage e rng ev s sender_arg content_arg (Thenable (Rejected err)) = (Rejected err, s)"
  "postMessage e rng ev s sender_arg content_arg (Thenable Unsettled) = (Unsettled, s)"
  by (simp_all add: postMessage_def)

lemma postMessage_upload:
  "postMessage e rng ev s sender_arg content_arg (Thenable (Fulfilled upload)) =
     (case save_to_disk s (path_join (uploadsDir e) (filename upload))
             (createReadStream upload) ev of
        (Rejected err, s1) \<Rightarrow> (Rejected err, s1)
      | (Unsettled, s1) \<Rightarrow> (Unsettled, s1)
      | (Fulfilled u, s1) \<Rightarrow>
          store_and_publish rng s1 sender_arg content_arg
            (Some \<lparr>filename = filename upload, mimetype = mimetype upload,
                   encoding = encoding upload,
                   url = ''http://localhost:4000/uploads/'' @ filename upload\<rparr>))"
  by (simp add: postMessage_def Let_def)

lemma postMessage_messages:
  "messages (snd (postMessage e rng ev s sender_arg content_arg file_arg)) =
     messages s @ returned_by e s (Post rng ev sender_arg content_arg file_arg)"
proof (cases file_arg)
  case Nullish
  then show ?thesis
    by (simp add: postMessage_no_file store_and_publish_result messages_publish)
next
  case (NotThenable t)
  then show ?thesis
    by (simp add: postMessage_NotThenable store_and_publish_result messages_publish)
next
  case (Thenable p)
  show ?thesis
  proof (cases p)
    case (Fulfilled upload)
    obtain r s1 where sv:
      "save_to_disk s (path_join (uploadsDir e) (filename upload)) (createReadStream upload) ev
         = (r, s1)"
      by (cases "save_to_disk s (path_join (uploadsDir e) (filename upload))
                   (createReadStream upload) ev")
    have "messages s1 = messages s"
      using save_to_disk_keeps(1)
        [of s "path_join (uploadsDir e) (filename upload)" "createReadStream upload" ev]
      by (simp add: sv)
    then show ?thesis
      using Thenable Fulfilled sv
      by (cases r) (simp_all add: postMessage_upload store_and_publish_result messages_publish)
  next
    case (Rejected err)
    with Thenable show ?thesis by (simp add: postMessage_not_fulfilled)
  next
    case Unsettled
    with Thenable show ?thesis by (simp add: postMessage_not_fulfilled)
  qed
qed

lemma postMessage_write_error:
  "postMessage e rng (WriteError err left) s sender_arg content_arg (Thenable (Fulfilled upload)) =
     (Rejected err,
      snd (save_to_disk s (path_join (uploadsDir e) (filename upload))
             (createReadStream upload) (WriteError err left)))"
  by (simp add: postMessage_upload save_to_disk_def Let_def)


text \<open>What a fulfilled call returns.\<close>

lemma postMessage_Fulfilled:
  assumes "postMessage e rng ev s sender_arg content_arg file_arg = (Fulfilled m, s')"
  shows "id_msg m = uuidv4 rng" and "sender m = sender_arg" and "content m = content_arg"
    and "file m \<noteq> None \<longleftrightarrow> then_is_function file_arg"
proof -
  have "id_msg m = uuidv4 rng \<and> sender m = sender_arg \<and> content m = content_arg
          \<and> (file m \<noteq> None \<longleftrightarrow> then_is_function file_arg)"
  proof (cases file_arg)
    case Nullish
    with assms show ?thesis
      by (auto simp: postMessage_no_file store_and_publish_result)
  next
    case (NotThenable t)
    with assms show ?thesis
      by (auto simp: postMessage_NotThenable store_and_publish_result)
  next
    case (Thenable p)
    show ?thesis
    proof (cases p)
      case (Fulfilled upload)
      obtain r s1 where sv:
        "save_to_disk s (path_join (uploadsDir e) (filename upload)) (createReadStream upload) ev
           = (r, s1)"
        by (cases "save_to_disk s (path_join (uploadsDir e) (filename upload))
                     (createReadStream upload) ev")
      with assms Thenable Fulfilled show ?thesis
        by (cases r) (auto simp: postMessage_upload store_and_publish_result)
    next
      case (Rejected err)
      with assms Thenable show ?thesis by (simp add: postMessage_not_fulfilled)
    next
      case Unsettled
      with assms Thenable show ?thesis by (simp add: postMessage_not_fulfilled)
    qed
  qed
  then show "id_msg m = uuidv4 rng" and "sender m = sender_arg" and "content m = content_arg"
    and "file m \<noteq> None \<longleftrightarrow> then_is_function file_arg"
    by simp_all
qed

lemma returned_by_Fulfilled:
  "postMessage e rng ev s sender_arg content_arg file_arg = (Fulfilled m, s') \<Longrightarrow>
     returned_by e s (Post rng ev sender_arg content_arg file_arg) = [m]"
  by simp


lemma messages_step: "messages (step e s x) = messages s @ returned_by e s x"
  by (cases x) (simp_all add: postMessage_messages messageAdded_subscribe_def asyncIterator_def)

lemma messages_run: "messages (run e s xs) = messages s @ returned e s xs"
  by (induction xs arbitrary: s) (simp_all add: messages_step)

lemma has_content_or_file_step:
  assumes "list_all has_content_or_file (messages s)" and "passes_content_or_upload x"
  shows "list_all has_content_or_file (messages (step e s x))"
proof -
  have ms: "messages (step e s x) = messages s @ returned_by e s x"
    by (rule messages_step)
  have "list_all has_content_or_file (returned_by e s x)"
  proof (cases x)
    case (Post rng ev sender_arg content_arg file_arg)
    obtain r s' where ps: "postMessage e rng ev s sender_arg content_arg file_arg = (r, s')"
      by (cases "postMessage e rng ev s sender_arg content_arg file_arg")
    show ?thesis
    proof (cases r)
      case (Fulfilled m)
      have "content m = content_arg" and "file m \<noteq> None \<longleftrightarrow> then_is_function file_arg"
        using postMessage_Fulfilled(3,4) [OF ps [unfolded Fulfilled]] by simp_all
      with assms(2) Post have "has_content_or_file m"
        by (auto simp: has_content_or_file_def)
      with Post ps Fulfilled show ?thesis by simp
    next
      case (Rejected err)
      with Post ps show ?thesis by simp
    next
      case Unsettled
      with Post ps show ?thesis by simp
    qed
  next
    case Subscribe
    then show ?thesis by simp
  next
    case Query
    then show ?thesis by simp
  qed
  with assms(1) ms show ?thesis by simp
qed

subsection \<open>Paths\<close>













lemma uploadsDir_env0: "uploadsDir env0 = [''srv'', ''app'', ''uploads'']"
  by (simp add: uploadsDir_def path_join_def dirname_def normalize_def normalize_step_def)

subsection \<open>Requests for a plain filename\<close>






subsection \<open>The file descriptor and the subscriptions\<close>

lemma postMessage_Fulfilled_file:
  assumes "postMessage e rng ev s sender_arg content_arg file_arg = (Fulfilled m, s')"
    and "file m = Some fd"
  shows "url fd = ''http://localhost:4000/uploads/'' @ filename fd"
proof (cases file_arg)
  case Nullish
  with assms show ?thesis
    by (auto simp: postMessage_no_file store_and_publish_result)
next
  case (NotThenable t)
  with assms show ?thesis
    by (auto simp: postMessage_NotThenable store_and_publish_result)
next
  case (Thenable p)
  show ?thesis
  proof (cases p)
    case (Fulfilled upload)
    obtain r s1 where sv:
      "save_to_disk s (path_join (uploadsDir e) (filename upload)) (createReadStream upload) ev
         = (r, s1)"
      by (cases "save_to_disk s (path_join (uploadsDir e) (filename upload))
                   (createReadStream upload) ev")
    with assms Thenable Fulfilled show ?thesis
      by (cases r) (auto simp: postMessage_upload store_and_publish_result)
  next
    case (Rejected err)
    with assms Thenable show ?thesis by (simp add: postMessage_not_fulfilled)
  next
    case Unsettled
    with assms Thenable show ?thesis by (simp add: postMessage_not_fulfilled)
  qed
qed

lemma post_a_txt:
  "postMessage env0 of_nat Accepts (init Map.empty) ''Alice'' None (Thenable (Fulfilled a_txt)) =
     (Fulfilled \<lparr>id_msg = ''00010203-0405-4607-8809-0a0b0c0d0e0f'', sender = ''Alice'',
                 content = None, file = Some a_txt_File\<rparr>,
      \<lparr>messages = [\<lparr>id_msg = ''00010203-0405-4607-8809-0a0b0c0d0e0f'', sender = ''Alice'',
                     content = None, file = Some a_txt_File\<rparr>],
       pubsub = [],
       disk = [[''srv'', ''app'', ''uploads'', ''a.txt''] \<mapsto> [104, 105]],
       opened = [[''srv'', ''app'', ''uploads'', ''a.txt'']]\<rparr>)"
  by (simp add: postMessage_upload save_to_disk_def store_and_publish_result publish_def
        init_def uuidv4_of_nat uploadsDir_env0 path_join_def normalize_def normalize_step_def)






subsection \<open>The claims\<close>

text \<open>
  C1: posting sender \<open>Alice\<close>, content \<open>hi\<close> and no file always returns a record, whose
  identifier is not empty, whose sender is \<open>Alice\<close>, whose content is \<open>hi\<close> and whose file is
  \<open>null\<close>.
\<close>

theorem postMessage_Alice_hi:
  "\<exists>m s'. postMessage e rng ev s ''Alice'' (Some ''hi'') Nullish = (Fulfilled m, s')
     \<and> id_msg m \<noteq> [] \<and> sender m = ''Alice'' \<and> content m = Some ''hi'' \<and> file m = None"
proof -
  have "length (uuidv4 rng) = 36" by (rule length_uuidv4)
  then have "uuidv4 rng \<noteq> []" by auto
  then show ?thesis
    by (simp add: postMessage_no_file store_and_publish_def Let_def)
qed




text \<open>
  C3: in every state the \<open>messages\<close> query returns the whole store as it is; before any
  mutation that is the empty list, and after any history of operations it is the list of the
  records the mutations returned, in the order they were applied.
\<close>

theorem Query_messages_is_store:
  "Query_messages s = messages s
     \<and> Query_messages (init d) = []
     \<and> Query_messages (run e (init d) xs) = returned e (init d) xs"
  by (simp add: Query_messages_def messages_run init_def)






text \<open>
  C6: when the disk write of an uploaded file fails, the mutation's promise is rejected with
  the write's error, the caller's response carries that error in \<open>errors\<close> and no data, and
  the call has opened exactly one write stream (the write is not tried again).
\<close>

theorem failed_write_rejects_once:
  "fst (postMessage e rng (WriteError err left) s sender_arg content_arg
          (Thenable (Fulfilled upload))) = Rejected err
   \<and> execute_postMessage
       (fst (postMessage e rng (WriteError err left) s sender_arg content_arg
               (Thenable (Fulfilled upload)))) = Some \<lparr>data = None, errors = [err]\<rparr>
   \<and> opened (snd (postMessage e rng (WriteError err left) s sender_arg content_arg
                    (Thenable (Fulfilled upload))))
       = opened s @ [path_join (uploadsDir e) (filename upload)]"
  by (simp add: postMessage_write_error save_to_disk_keeps)

text \<open>
  C7 (amended): the server listens on port 4000; the upload directory is \<open>uploads\<close> joined
  to the directory of the module file and does not depend on the working directory of the
  process; and the URL in every returned file descriptor is \<open>http://localhost:4000/uploads/\<close>
  followed by the descriptor's filename.
\<close>

theorem fixed_configuration:
  "httpServer_listen = 4000
   \<and> uploadsDir e = normalize (dirname (module_filename e) @ [''uploads''])
   \<and> uploadsDir (e\<lparr>cwd := c\<rparr>) = uploadsDir e
   \<and> (postMessage e rng ev s sender_arg content_arg file_arg = (Fulfilled m, s')
        \<and> file m = Some fd
      \<longrightarrow> url fd = ''http://localhost:4000/uploads/'' @ filename fd)"
proof -
  have "httpServer_listen = 4000"
    by (simp add: httpServer_listen_def PORT_def)
  moreover have "uploadsDir e = normalize (dirname (module_filename e) @ [''uploads''])"
    by (simp add: uploadsDir_def path_join_def)
  moreover have "uploadsDir (e\<lparr>cwd := c\<rparr>) = uploadsDir e"
    by (simp add: uploadsDir_def)
  moreover have "url fd = ''http://localhost:4000/uploads/'' @ filename fd"
    if "postMessage e rng ev s sender_arg content_arg file_arg = (Fulfilled m, s')"
      and "file m = Some fd"
    using that by (rule postMessage_Fulfilled_file)
  ultimately show ?thesis by blast
qed

text \<open>The theorem at the server in \<open>/srv/app\<close> and the upload of \<open>a.txt\<close>.\<close>

theorem fixed_configuration_witness:
  "httpServer_listen = 4000
   \<and> uploadsDir env0 = [''srv'', ''app'', ''uploads'']
   \<and> uploadsDir (env0\<lparr>cwd := [''tmp'']\<rparr>) = uploadsDir env0
   \<and> url a_txt_File = ''http://localhost:4000/uploads/'' @ filename a_txt_File"
  using fixed_configuration
    [where e = env0 and c = "[''tmp'']" and rng = of_nat and ev = Accepts
       and s = "init Map.empty" and sender_arg = "''Alice''" and content_arg = None
       and file_arg = "Thenable (Fulfilled a_txt)" and fd = a_txt_File
       and m = "\<lparr>id_msg = ''00010203-0405-4607-8809-0a0b0c0d0e0f'', sender = ''Alice'',
                 content = None, file = Some a_txt_File\<rparr>"
       and s' = "\<lparr>messages = [\<lparr>id_msg = ''00010203-0405-4607-8809-0a0b0c0d0e0f'',
                     sender = ''Alice'', content = None, file = Some a_txt_File\<rparr>],
                 pubsub = [],
                 disk = [[''srv'', ''app'', ''uploads'', ''a.txt''] \<mapsto> [104, 105]],
                 opened = [[''srv'', ''app'', ''uploads'', ''a.txt'']]\<rparr>"]
  by (simp add: post_a_txt dirname_def normalize_def normalize_step_def)

text \<open>
  The claim as it is written fails when the process is not started in the directory of the
  module: here the upload directory is \<open>/srv/app/uploads\<close>, and \<open>uploads\<close> relative to the
  working directory would be \<open>/home/user/uploads\<close>.
\<close>

theorem uploadsDir_not_under_cwd:
  "uploadsDir env0 = [''srv'', ''app'', ''uploads'']
   \<and> path_join (cwd env0) ''uploads'' = [''home'', ''user'', ''uploads'']
   \<and> uploadsDir env0 \<noteq> path_join (cwd env0) ''uploads''"
  by (simp add: uploadsDir_env0 path_join_def normalize_def normalize_step_def)

text \<open>
  C8 (amended): the resolver enforces no invariant on content and file. What holds is that
  the invariant is kept by every history in which each mutation passes a non-null content or
  a promise-like file: starting from a store that satisfies it, every record in the store has
  a content or a file descriptor.
\<close>

theorem invariant_when_something_passed:
  "list_all passes_content_or_upload xs \<Longrightarrow>
     list_all has_content_or_file (messages s) \<Longrightarrow>
     list_all has_content_or_file (messages (run e s xs))"
  by (induction xs arbitrary: s) (simp_all add: has_content_or_file_step)

text \<open>The theorem at one mutation by \<open>Alice\<close> with content \<open>hi\<close> on the empty store.\<close>

theorem invariant_when_something_passed_witness:
  "list_all has_content_or_file
     (messages (run env0 (init Map.empty) [Post of_nat Accepts ''Alice'' (Some ''hi'') Nullish]))"
  using invariant_when_something_passed
    [of "[Post of_nat Accepts ''Alice'' (Some ''hi'') Nullish]" "init Map.empty" env0]
  by (simp add: init_def)

text \<open>
  The claim as it is written fails for a mutation that passes a sender only: the record it
  stores has neither content nor file.
\<close>

theorem message_without_content_or_file:
  "\<not> list_all has_content_or_file
       (messages (snd (postMessage env0 of_nat Accepts (init Map.empty) ''Alice'' None Nullish)))"
  by (simp add: postMessage_no_file store_and_publish_result messages_publish init_def
        has_content_or_file_def)

text \<open>
  C9: when the disk write of an uploaded file fails, no message is appended to the store and
  nothing is published: the message list and every subscription are as they were before the
  call.
\<close>

theorem failed_write_leaves_store_and_channel:
  "messages (snd (postMessage e rng (WriteError err left) s sender_arg content_arg
                    (Thenable (Fulfilled upload)))) = messages s
   \<and> pubsub (snd (postMessage e rng (WriteError err left) s sender_arg content_arg
                    (Thenable (Fulfilled upload)))) = pubsub s"
  by (simp add: postMessage_write_error save_to_disk_keeps)

text \<open>
  C10: a \<open>file\<close> argument that is not \<open>null\<close> but has no \<open>then\<close> function is ignored: the
  call returns and stores a record whose file is \<open>null\<close>, raises no error, opens no write
  stream and leaves the disk as it was.
\<close>

theorem non_promise_file_ignored:
  "fst (postMessage e rng ev s sender_arg content_arg (NotThenable t))
     = Fulfilled \<lparr>id_msg = uuidv4 rng, sender = sender_arg, content = content_arg, file = None\<rparr>
   \<and> messages (snd (postMessage e rng ev s sender_arg content_arg (NotThenable t)))
     = messages s @
       [\<lparr>id_msg = uuidv4 rng, sender = sender_arg, content = content_arg, file = None\<rparr>]
   \<and> disk (snd (postMessage e rng ev s sender_arg content_arg (NotThenable t))) = disk s
   \<and> opened (snd (postMessage e rng ev s sender_arg content_arg (NotThenable t))) = opened s"
  by (simp add: postMessage_NotThenable store_and_publish_result messages_publish disk_publish
        opened_publish)

end
